theory Spec2Isabelle
  imports Main
begin

section \<open>Stored collections\<close>

text \<open>
  Every collection is one JSON file holding an array of records. A file is modelled by
  its parsed content; \<open>None\<close> stands for a file that is missing or does not parse.
  \<open>readJSON\<close> (lines 96-104) answers the empty array for such a file.
\<close>

definition readJSON :: "'a list option \<Rightarrow> 'a list" where
  "readJSON file = (case file of Some data \<Rightarrow> data | None \<Rightarrow> [])"

text \<open>
  \<open>fs.writeFile\<close> either replaces the content, or fails before touching the file, or
  fails after truncating it. \<open>writeJSON\<close> (lines 107-115) catches the failure and
  answers \<open>false\<close>; the pair holds that answer and the file afterwards.
\<close>

datatype write_outcome = Written | Failed_untouched | Failed_truncated

definition writeJSON :: "write_outcome \<Rightarrow> 'a list option \<Rightarrow> 'a list \<Rightarrow> bool \<times> 'a list option" where
  "writeJSON w file data =
     (case w of
        Written \<Rightarrow> (True, Some data)
      | Failed_untouched \<Rightarrow> (False, file)
      | Failed_truncated \<Rightarrow> (False, None))"

text \<open>\<open>Array.prototype.findIndex\<close>; the answer \<open>-1\<close> of the source is \<open>None\<close>.\<close>

fun findIndex :: "('a \<Rightarrow> bool) \<Rightarrow> 'a list \<Rightarrow> nat option" where
  "findIndex P [] = None"
| "findIndex P (x # xs) = (if P x then Some 0 else map_option Suc (findIndex P xs))"

section \<open>IP reputation\<close>

text \<open>
  Times are the millisecond values of \<open>Date\<close>; the ISO text written to the file
  denotes the same value. Each \<open>new Date()\<close> of the source is a reading of the clock
  of its own, passed to the model as an argument.
\<close>

record ip_reputation =
  rep_ip_address :: string
  reputation_score :: int
  total_logins :: int
  failed_logins :: int
  successful_logins :: int
  suspicious_activities :: int
  first_seen :: int
  last_seen :: int
  is_blocked :: bool

text \<open>Lines 137-150: the record found is updated; \<open>t\<close> is the clock read at line 149.\<close>

definition update_existing :: "string \<Rightarrow> int \<Rightarrow> ip_reputation \<Rightarrow> ip_reputation" where
  "update_existing result t ip0 =
     (let ip = ip0\<lparr>total_logins := total_logins ip0 + 1\<rparr>;
          ip = (if result = ''success''
                then ip\<lparr>successful_logins := successful_logins ip + 1,
                        reputation_score := min (reputation_score ip + 1) 100\<rparr>
                else ip\<lparr>failed_logins := failed_logins ip + 1,
                        suspicious_activities := suspicious_activities ip + 1,
                        reputation_score := max (reputation_score ip - 5) 0\<rparr>)
      in ip\<lparr>last_seen := t\<rparr>)"

text \<open>Lines 153-164: the record of a new address; the clock is read at line 161 and again
  at line 162.\<close>

definition new_ip_record :: "string \<Rightarrow> string \<Rightarrow> int \<Rightarrow> int \<Rightarrow> ip_reputation" where
  "new_ip_record ipAddress result t1 t2 =
     (let initialScore = (if result = ''success'' then 95 else 90) in
      \<lparr>rep_ip_address = ipAddress,
       reputation_score = initialScore,
       total_logins = 1,
       failed_logins = (if result = ''success'' then 0 else 1),
       successful_logins = (if result = ''success'' then 1 else 0),
       suspicious_activities = (if result = ''success'' then 0 else 1),
       first_seen = t1,
       last_seen = t2,
       is_blocked = False\<rparr>)"

text \<open>
  \<open>updateIPReputation\<close> (lines 131-168). \<open>t1\<close> and \<open>t2\<close> are the first and the second
  reading of the clock during the call (the update branch reads it once), \<open>w\<close> is the
  outcome of the write, whose answer the function drops.
\<close>

definition updateIPReputation ::
  "string \<Rightarrow> string \<Rightarrow> int \<Rightarrow> int \<Rightarrow> write_outcome \<Rightarrow> ip_reputation list option
     \<Rightarrow> ip_reputation list option" where
  "updateIPReputation ipAddress result t1 t2 w file =
     (let ipReputations = readJSON file;
          ipReputations' =
            (case findIndex (\<lambda>ip. rep_ip_address ip = ipAddress) ipReputations of
               Some ipIndex \<Rightarrow>
                 ipReputations[ipIndex := update_existing result t1 (ipReputations ! ipIndex)]
             | None \<Rightarrow> ipReputations @ [new_ip_record ipAddress result t1 t2])
      in snd (writeJSON w file ipReputations'))"

text \<open>The lookup of \<open>/api/analytics/ip-reputation/:ip\<close> (lines 515-517).\<close>

definition ip_reputation_of :: "string \<Rightarrow> ip_reputation list option \<Rightarrow> ip_reputation option" where
  "ip_reputation_of ip file = find (\<lambda>item. rep_ip_address item = ip) (readJSON file)"

text \<open>A run of observations of one address: outcome, the two clock readings and the
  outcome of the write, for each call.\<close>

definition observe_all ::
  "string \<Rightarrow> (string \<times> int \<times> int \<times> write_outcome) list \<Rightarrow> ip_reputation list option
     \<Rightarrow> ip_reputation list option" where
  "observe_all ip obs file =
     foldl (\<lambda>f (result, t1, t2, w). updateIPReputation ip result t1 t2 w f) file obs"

definition counters_agree :: "ip_reputation \<Rightarrow> bool" where
  "counters_agree r \<longleftrightarrow>
     total_logins r = successful_logins r + failed_logins r \<and>
     0 \<le> reputation_score r \<and> reputation_score r \<le> 100"

section \<open>Users, sessions and login attempts\<close>

text \<open>The fields of a user that the handlers read (lines 39-41).\<close>

record user =
  user_id :: int
  username :: string
  password :: string

text \<open>
  A value the server stores without reading it is kept as its JSON text, together with
  what \<open>||\<close> sees of it: \<open>0\<close>, \<open>false\<close>, \<open>''\<close> and \<open>null\<close> are falsy, every other
  value is truthy.
\<close>

datatype payload = Falsy string | Truthy string

record browser_info =
  userAgent :: "string option"
  browser_rest :: payload

record device_info =
  fingerprint :: "string option"
  browser :: "browser_info option"
  screen :: "payload option"
  timezone :: "payload option"
  referrer :: "string option"
  currentUrl :: "string option"

text \<open>The session pushed at lines 250-260. A property the request left out is \<open>None\<close>.\<close>

record session =
  ses_session_id :: "string option"
  ses_user_id :: int
  session_token :: string
  ses_device_fingerprint :: "string option"
  ses_ip_address :: string
  ses_user_agent :: "string option"
  created_at :: int
  expires_at :: int
  is_active :: bool

text \<open>The attempt record of lines 207-218 with the two properties set at lines 223-224
  or 241. \<open>attempt_status\<close> is \<open>''SUCCESS''\<close> or \<open>''FAILURE''\<close>.\<close>

record login_attempt =
  attempt_id :: int
  att_timestamp :: int
  att_username :: string
  att_user_id :: "int option"
  att_session_id :: "string option"
  att_ip_address :: string
  att_device_fingerprint :: "string option"
  att_user_agent :: "string option"
  password_length :: nat
  remember_me :: "bool option"
  attempt_status :: string
  failure_reason :: "string option"

text \<open>The body of \<open>POST /api/auth/login\<close> (line 189).\<close>

record login_request =
  req_username :: "string option"
  req_password :: "string option"
  req_deviceInfo :: "device_info option"
  req_sessionId :: "string option"
  req_rememberMe :: "bool option"

section \<open>Events\<close>

text \<open>An event as a client sends it (lines 295 and 369).\<close>

record event_input =
  ev_timestamp :: "string option"
  ev_sessionId :: "string option"
  eventType :: "string option"
  eventData :: "payload option"
  ev_deviceInfo :: "device_info option"

text \<open>
  An element of the \<open>events\<close> array of a batch. Destructuring at line 369 raises a
  \<open>TypeError\<close> on \<open>null\<close> and on nothing else: of an object it reads the five
  properties, and a number, a string, a boolean or an array has none of the five, which
  is an \<open>Entry\<close> with every property absent.
\<close>

datatype event_entry = Null_entry | Entry event_input

text \<open>The time of a log entry is the client's text or, without one, a reading of the
  server's clock.\<close>

datatype log_time = Client_time string | Server_time int

record event_log =
  log_id :: int
  log_timestamp :: log_time
  log_session_id :: "string option"
  log_user_id :: "int option"
  event_type :: "string option"
  event_data :: payload
  log_ip_address :: string
  log_device_fingerprint :: "string option"
  log_browser_info :: browser_info
  screen_info :: payload
  timezone_info :: payload
  log_referrer :: "string option"
  current_url :: "string option"

section \<open>The five files and the answers of the handlers\<close>

record storage =
  users_file :: "user list option"
  sessions_file :: "session list option"
  event_logs_file :: "event_log list option"
  login_attempts_file :: "login_attempt list option"
  ip_reputation_file :: "ip_reputation list option"

record bucket =
  count :: nat
  unique_ips :: nat
  unique_users :: nat

datatype response_data =
    No_data
  | Remaining_attempts nat
  | Login_data int string string int "string option"
  | Logged_event int "string option" log_time
  | Logged_batch nat nat
  | Login_stats bucket bucket

text \<open>The HTTP status and the \<open>message\<close> and the \<open>data\<close> of the JSON answer; its
  \<open>timestamp\<close> is left out.\<close>

record response =
  http_status :: nat
  resp_message :: string
  resp_data :: response_data

section \<open>Login\<close>

text \<open>What a login takes from its environment, in the order of the source: the clock at
  line 209, the write of the attempts, the random token, the clock at lines 247 and 257,
  the write of the sessions, and the clock readings and the write of
  \<open>updateIPReputation\<close>.\<close>

record login_env =
  t_attempt :: int
  w_attempts :: write_outcome
  sessionToken :: string
  t_expiry :: int
  t_created :: int
  w_sessions :: write_outcome
  t_rep1 :: int
  t_rep2 :: int
  w_rep :: write_outcome

text \<open>\<open>!x\<close> is false for a string that is present and not empty.\<close>

definition given :: "string option \<Rightarrow> bool" where
  "given x = (case x of None \<Rightarrow> False | Some s \<Rightarrow> s \<noteq> [])"

text \<open>\<open>x?.user_id || null\<close> (lines 211, 301, 373): the number 0 is falsy.\<close>

definition user_id_or_null :: "int option \<Rightarrow> int option" where
  "user_id_or_null x = (case x of None \<Rightarrow> None | Some n \<Rightarrow> if n = 0 then None else Some n)"

definition device_fingerprint :: "device_info option \<Rightarrow> string option" where
  "device_fingerprint deviceInfo = (case deviceInfo of None \<Rightarrow> None | Some d \<Rightarrow> fingerprint d)"

definition device_user_agent :: "device_info option \<Rightarrow> string option" where
  "device_user_agent deviceInfo =
     (case deviceInfo of
        None \<Rightarrow> None
      | Some d \<Rightarrow> (case browser d of None \<Rightarrow> None | Some b \<Rightarrow> userAgent b))"

text \<open>Lines 207-218. The status and the reason are not set yet.\<close>

definition attemptRecord ::
  "login_env \<Rightarrow> string \<Rightarrow> login_request \<Rightarrow> user option \<Rightarrow> login_attempt list \<Rightarrow> login_attempt" where
  "attemptRecord env ipAddress req user loginAttempts =
     \<lparr>attempt_id = int (length loginAttempts) + 1,
      att_timestamp = t_attempt env,
      att_username = the (req_username req),
      att_user_id = user_id_or_null (map_option user_id user),
      att_session_id = req_sessionId req,
      att_ip_address = ipAddress,
      att_device_fingerprint = device_fingerprint (req_deviceInfo req),
      att_user_agent = device_user_agent (req_deviceInfo req),
      password_length = length (the (req_password req)),
      remember_me = req_rememberMe req,
      attempt_status = [],
      failure_reason = None\<rparr>"

text \<open>Lines 221-224 and 241: the record as it is pushed.\<close>

definition pushed_attempt ::
  "login_env \<Rightarrow> string \<Rightarrow> login_request \<Rightarrow> user list \<Rightarrow> login_attempt list \<Rightarrow> login_attempt" where
  "pushed_attempt env ipAddress req users loginAttempts =
     (let user = find (\<lambda>u. username u = the (req_username req)) users;
          attempt = attemptRecord env ipAddress req user loginAttempts
      in case user of
           None \<Rightarrow>
             attempt\<lparr>attempt_status := ''FAILURE'', failure_reason := Some ''user_not_found''\<rparr>
         | Some u \<Rightarrow>
             if password u \<noteq> the (req_password req)
             then attempt\<lparr>attempt_status := ''FAILURE'',
                          failure_reason := Some ''invalid_password''\<rparr>
             else attempt\<lparr>attempt_status := ''SUCCESS''\<rparr>)"

text \<open>Lines 246-260: the session of a successful login.\<close>

definition new_session :: "login_env \<Rightarrow> string \<Rightarrow> login_request \<Rightarrow> user \<Rightarrow> session" where
  "new_session env ipAddress req u =
     (let expiresAt = t_expiry env + 24 * 60 * 60 * 1000 in
      \<lparr>ses_session_id = req_sessionId req,
       ses_user_id = user_id u,
       session_token = sessionToken env,
       ses_device_fingerprint = device_fingerprint (req_deviceInfo req),
       ses_ip_address = ipAddress,
       ses_user_agent = device_user_agent (req_deviceInfo req),
       created_at = t_created env,
       expires_at = expiresAt,
       is_active = True\<rparr>)"

text \<open>
  \<open>POST /api/auth/login\<close> (lines 187-287). No answer of \<open>writeJSON\<close> is read, and
  nothing in the body raises on a request of this type, so the \<open>catch\<close> of line 279 is
  not entered.
\<close>

definition login :: "login_env \<Rightarrow> string \<Rightarrow> login_request \<Rightarrow> storage \<Rightarrow> response \<times> storage" where
  "login env ipAddress req st =
     (if \<not> given (req_username req) \<or> \<not> given (req_password req)
      then (\<lparr>http_status = 400, resp_message = ''Username and password required'',
              resp_data = No_data\<rparr>, st)
      else
        let users = readJSON (users_file st);
            user = find (\<lambda>u. username u = the (req_username req)) users;
            loginAttempts = readJSON (login_attempts_file st);
            attempt = pushed_attempt env ipAddress req users loginAttempts;
            st1 = st\<lparr>login_attempts_file :=
                       snd (writeJSON (w_attempts env) (login_attempts_file st)
                              (loginAttempts @ [attempt]))\<rparr>
        in case user of
             None \<Rightarrow>
               (\<lparr>http_status = 401, resp_message = ''Invalid credentials'',
                 resp_data = Remaining_attempts 2\<rparr>,
                st1\<lparr>ip_reputation_file :=
                       updateIPReputation ipAddress ''failure'' (t_rep1 env) (t_rep2 env)
                         (w_rep env) (ip_reputation_file st1)\<rparr>)
           | Some u \<Rightarrow>
               if password u \<noteq> the (req_password req)
               then
                 (\<lparr>http_status = 401, resp_message = ''Invalid credentials'',
                   resp_data = Remaining_attempts 2\<rparr>,
                  st1\<lparr>ip_reputation_file :=
                         updateIPReputation ipAddress ''failure'' (t_rep1 env) (t_rep2 env)
                           (w_rep env) (ip_reputation_file st1)\<rparr>)
               else
                 let sessions = readJSON (sessions_file st1);
                     s = new_session env ipAddress req u;
                     st2 = st1\<lparr>sessions_file :=
                                 snd (writeJSON (w_sessions env) (sessions_file st1)
                                        (sessions @ [s]))\<rparr>;
                     st3 = st2\<lparr>ip_reputation_file :=
                                 updateIPReputation ipAddress ''success'' (t_rep1 env)
                                   (t_rep2 env) (w_rep env) (ip_reputation_file st2)\<rparr>
                 in (\<lparr>http_status = 200, resp_message = ''Authentication successful'',
                       resp_data = Login_data (user_id u) (username u) (sessionToken env)
                                (expires_at s) (req_sessionId req)\<rparr>, st3))"

section \<open>Logging of events\<close>

text \<open>The lookup of lines 300 and 372: \<open>sessions.find(s => s.session_id === sessionId)\<close>.\<close>

definition find_by_session_id :: "session list \<Rightarrow> string option \<Rightarrow> session option" where
  "find_by_session_id sessions sessionId = find (\<lambda>s. ses_session_id s = sessionId) sessions"

text \<open>\<open>x || {}\<close> (lines 313, 317, 318 and 382, 386, 387): an absent and a falsy value
  give the empty object.\<close>

definition or_empty :: "payload option \<Rightarrow> payload" where
  "or_empty x =
     (case x of
        None \<Rightarrow> Truthy ''{}''
      | Some (Falsy v) \<Rightarrow> Truthy ''{}''
      | Some (Truthy v) \<Rightarrow> Truthy v)"

text \<open>\<open>deviceInfo?.browser || {}\<close> (lines 316 and 385); \<open>browser\<close> is \<open>None\<close> when the
  property is absent or falsy.\<close>

definition browser_or_empty :: "device_info option \<Rightarrow> browser_info" where
  "browser_or_empty deviceInfo =
     (case deviceInfo of
        None \<Rightarrow> \<lparr>userAgent = None, browser_rest = Truthy ''{}''\<rparr>
      | Some d \<Rightarrow>
          (case browser d of
             None \<Rightarrow> \<lparr>userAgent = None, browser_rest = Truthy ''{}''\<rparr>
           | Some b \<Rightarrow> b))"

text \<open>
  The log entry of lines 307-321 and, with the same text, of lines 376-390; \<open>now\<close> is the
  clock read at line 309 or 378 when the event brings no time of its own.
\<close>

definition logEntry ::
  "int \<Rightarrow> int \<Rightarrow> string \<Rightarrow> session list \<Rightarrow> event_input \<Rightarrow> event_log" where
  "logEntry new_id now ipAddress sessions e =
     (let session = find_by_session_id sessions (ev_sessionId e);
          userId = user_id_or_null (map_option ses_user_id session);
          deviceInfo = ev_deviceInfo e
      in \<lparr>log_id = new_id,
          log_timestamp = (if given (ev_timestamp e) then Client_time (the (ev_timestamp e))
                           else Server_time now),
          log_session_id = ev_sessionId e,
          log_user_id = userId,
          event_type = eventType e,
          event_data = or_empty (eventData e),
          log_ip_address = ipAddress,
          log_device_fingerprint = device_fingerprint deviceInfo,
          log_browser_info = browser_or_empty deviceInfo,
          screen_info = or_empty (case deviceInfo of None \<Rightarrow> None | Some d \<Rightarrow> screen d),
          timezone_info = or_empty (case deviceInfo of None \<Rightarrow> None | Some d \<Rightarrow> timezone d),
          log_referrer = (case deviceInfo of None \<Rightarrow> None | Some d \<Rightarrow> referrer d),
          current_url = (case deviceInfo of None \<Rightarrow> None | Some d \<Rightarrow> currentUrl d)\<rparr>)"

text \<open>
  \<open>POST /api/log/event\<close> (lines 293-346); \<open>now\<close> is the clock at line 309 and \<open>w\<close>
  the outcome of the write at line 325, whose answer is not read.
\<close>

definition log_event ::
  "int \<Rightarrow> write_outcome \<Rightarrow> string \<Rightarrow> event_input \<Rightarrow> storage \<Rightarrow> response \<times> storage" where
  "log_event now w ipAddress e st =
     (let sessions = readJSON (sessions_file st);
          eventLogs = readJSON (event_logs_file st);
          entry = logEntry (int (length eventLogs) + 1) now ipAddress sessions e;
          st' = st\<lparr>event_logs_file :=
                     snd (writeJSON w (event_logs_file st) (eventLogs @ [entry]))\<rparr>
      in (\<lparr>http_status = 201, resp_message = ''Event logged successfully'',
            resp_data = Logged_event (log_id entry) (eventType e) (log_timestamp entry)\<rparr>, st'))"

text \<open>
  The loop of lines 367-399 over the rest of the batch. \<open>i\<close> is the position of the next
  element, \<open>clock i\<close> the clock read at line 378 for it. The triple is \<open>eventLogs\<close>,
  \<open>loggedCount\<close> and \<open>failedCount\<close>; \<open>eventLogs\<close> grows by the push of line 392, and
  line 377 adds \<open>loggedCount\<close> to its length.
\<close>

fun batch_loop ::
  "(nat \<Rightarrow> int) \<Rightarrow> string \<Rightarrow> session list \<Rightarrow> nat \<Rightarrow> event_entry list
     \<Rightarrow> event_log list \<times> nat \<times> nat \<Rightarrow> event_log list \<times> nat \<times> nat" where
  "batch_loop clock ipAddress sessions i [] acc = acc"
| "batch_loop clock ipAddress sessions i (Null_entry # events) (eventLogs, loggedCount, failedCount) =
     batch_loop clock ipAddress sessions (Suc i) events (eventLogs, loggedCount, failedCount + 1)"
| "batch_loop clock ipAddress sessions i (Entry e # events) (eventLogs, loggedCount, failedCount) =
     batch_loop clock ipAddress sessions (Suc i) events
       (eventLogs @
          [logEntry (int (length eventLogs) + int loggedCount + 1) (clock i) ipAddress sessions e],
        loggedCount + 1, failedCount)"

text \<open>\<open>POST /api/log/batch\<close> (lines 348-421); \<open>events\<close> is \<open>None\<close> when the body has no
  such property.\<close>

definition log_batch ::
  "(nat \<Rightarrow> int) \<Rightarrow> write_outcome \<Rightarrow> string \<Rightarrow> event_entry list option \<Rightarrow> storage
     \<Rightarrow> response \<times> storage" where
  "log_batch clock w ipAddress events st =
     (if events = None \<or> events = Some []
      then (\<lparr>http_status = 400, resp_message = ''No events provided'', resp_data = No_data\<rparr>, st)
      else
        let eventLogs = readJSON (event_logs_file st);
            sessions = readJSON (sessions_file st);
            (eventLogs', loggedCount, failedCount) =
               batch_loop clock ipAddress sessions 0 (the events) (eventLogs, 0, 0);
            st' = st\<lparr>event_logs_file := snd (writeJSON w (event_logs_file st) eventLogs')\<rparr>
        in (\<lparr>http_status = 201, resp_message = ''Batch logged successfully'',
              resp_data = Logged_batch loggedCount failedCount\<rparr>, st'))"

section \<open>Login statistics\<close>

text \<open>The \<open>switch\<close> of lines 468-473; a missing \<open>timeRange\<close> is \<open>'24h'\<close> (line 464).\<close>

definition hoursAgo :: "string option \<Rightarrow> int" where
  "hoursAgo timeRange =
     (let r = (case timeRange of None \<Rightarrow> ''24h'' | Some x \<Rightarrow> x) in
      if r = ''1h'' then 1 else if r = ''24h'' then 24 else if r = ''7d'' then 168 else 24)"

text \<open>Lines 475-480; \<open>now\<close> is \<open>Date.now()\<close>.\<close>

definition recentAttempts :: "int \<Rightarrow> string option \<Rightarrow> login_attempt list \<Rightarrow> login_attempt list" where
  "recentAttempts now timeRange loginAttempts =
     (let threshold = now - hoursAgo timeRange * 60 * 60 * 1000
      in filter (\<lambda>attempt. att_timestamp attempt > threshold) loginAttempts)"

text \<open>One bucket of lines 484-493; \<open>new Set(...).size\<close> is the number of different
  values.\<close>

definition stats_bucket :: "string \<Rightarrow> login_attempt list \<Rightarrow> bucket" where
  "stats_bucket status recent =
     \<lparr>count = length (filter (\<lambda>a. attempt_status a = status) recent),
      unique_ips = card (set (map att_ip_address (filter (\<lambda>a. attempt_status a = status) recent))),
      unique_users = card (set (map att_username (filter (\<lambda>a. attempt_status a = status) recent)))\<rparr>"

text \<open>\<open>GET /api/analytics/login-stats\<close> (lines 461-510).\<close>

definition login_stats :: "int \<Rightarrow> string option \<Rightarrow> storage \<Rightarrow> response" where
  "login_stats now timeRange st =
     (let loginAttempts = readJSON (login_attempts_file st);
          recent = recentAttempts now timeRange loginAttempts
      in \<lparr>http_status = 200, resp_message = [],
          resp_data = Login_stats (stats_bucket ''SUCCESS'' recent) (stats_bucket ''FAILURE'' recent)\<rparr>)"

section \<open>Two requests on one collection\<close>

text \<open>
  A handler that appends to a collection meets the event loop twice: at
  \<open>await readJSON(...)\<close> the content read is handed to it (line 206 for the attempts),
  and from there it builds its record out of what it read, pushes it and starts the write
  without giving way (lines 207-227 or 207-243). No lock is taken, so a step of another
  request can run between the two. \<open>record_of\<close> builds the record from the array read.
\<close>

datatype 'a request_state = Before_read | After_read "'a list" | After_write

fun request_step ::
  "('a list \<Rightarrow> 'a) \<Rightarrow> 'a list option \<times> 'a request_state \<Rightarrow> 'a list option \<times> 'a request_state" where
  "request_step record_of (file, Before_read) = (file, After_read (readJSON file))"
| "request_step record_of (file, After_read xs) =
     (snd (writeJSON Written file (xs @ [record_of xs])), After_write)"
| "request_step record_of (file, After_write) = (file, After_write)"

datatype turn = First | Second

text \<open>Two requests under a schedule: each turn lets one of them take its next step.\<close>

fun interleave ::
  "('a list \<Rightarrow> 'a) \<Rightarrow> ('a list \<Rightarrow> 'a) \<Rightarrow> turn list
     \<Rightarrow> 'a list option \<times> 'a request_state \<times> 'a request_state
     \<Rightarrow> 'a list option \<times> 'a request_state \<times> 'a request_state" where
  "interleave ra rb [] c = c"
| "interleave ra rb (First # schedule) (file, a, b) =
     (case request_step ra (file, a) of (file', a') \<Rightarrow> interleave ra rb schedule (file', a', b))"
| "interleave ra rb (Second # schedule) (file, a, b) =
     (case request_step rb (file, b) of (file', b') \<Rightarrow> interleave ra rb schedule (file', a, b'))"

section \<open>Notions used to state the properties\<close>

text \<open>The identifiers of a ledger run from 1 to its length, in order, as in every ledger
  that line 208 has numbered from the empty one.\<close>

definition ids_in_sequence :: "login_attempt list \<Rightarrow> bool" where
  "ids_in_sequence attempts \<longleftrightarrow> map attempt_id attempts = map int [1..<Suc (length attempts)]"

text \<open>Not in the source. The next identifier in the words of the specification: the
  greatest one plus 1, or 1 for an empty collection.\<close>

definition current_max_id_plus_one :: "login_attempt list \<Rightarrow> int" where
  "current_max_id_plus_one attempts =
     (if attempts = [] then 1 else Max (set (map attempt_id attempts)) + 1)"

text \<open>Not in the source. The session lookup in the words of the specification: of the
  active records with the session id, the one created last.\<close>

definition most_recent_active :: "session list \<Rightarrow> string option \<Rightarrow> session option" where
  "most_recent_active sessions sessionId =
     (case filter (\<lambda>s. ses_session_id s = sessionId \<and> is_active s) sessions of
        [] \<Rightarrow> None
      | s # rest \<Rightarrow> Some (last (s # rest)))"

text \<open>The events of a batch that are not \<open>null\<close>, in order.\<close>

fun entries_of :: "event_entry list \<Rightarrow> event_input list" where
  "entries_of [] = []"
| "entries_of (Null_entry # events) = entries_of events"
| "entries_of (Entry e # events) = e # entries_of events"

text \<open>The same events, each with its position in the batch, counted from \<open>i\<close>.\<close>

fun indexed_entries :: "nat \<Rightarrow> event_entry list \<Rightarrow> (nat \<times> event_input) list" where
  "indexed_entries i [] = []"
| "indexed_entries i (Null_entry # events) = indexed_entries (Suc i) events"
| "indexed_entries i (Entry e # events) = (i, e) # indexed_entries (Suc i) events"

text \<open>
  Not in the source. A well-formed event in the words of the specification: its interface
  lists \<open>sessionId\<close> and \<open>eventType\<close> as required and the other three properties as
  optional, and an input that misses a required field is invalid.
\<close>

fun has_required_fields :: "event_entry \<Rightarrow> bool" where
  "has_required_fields Null_entry = False"
| "has_required_fields (Entry e) = (ev_sessionId e \<noteq> None \<and> eventType e \<noteq> None)"

section \<open>Runs of requests\<close>

text \<open>
  The requests that write to the storage, each with what its handler takes from the
  environment, and the storage after a sequence of them. No other code writes the files
  once \<open>initializeStorage\<close> has created them.
\<close>

datatype request =
    Post_login login_env string login_request
  | Post_event int write_outcome string event_input
  | Post_batch "nat \<Rightarrow> int" write_outcome string "event_entry list option"

fun serve :: "storage \<Rightarrow> request \<Rightarrow> storage" where
  "serve st (Post_login env ipAddress req) = snd (login env ipAddress req st)"
| "serve st (Post_event now w ipAddress e) = snd (log_event now w ipAddress e st)"
| "serve st (Post_batch clock w ipAddress events) = snd (log_batch clock w ipAddress events st)"

definition serve_all :: "request list \<Rightarrow> storage \<Rightarrow> storage" where
  "serve_all requests st = foldl serve st requests"

section \<open>Example data\<close>

text \<open>The users written by \<open>initializeStorage\<close> (lines 37-65) and the empty files of
  lines 77-83.\<close>

definition initial_users :: "user list" where
  "initial_users =
     [\<lparr>user_id = 1, username = ''admin'', password = ''admin123''\<rparr>,
      \<lparr>user_id = 2, username = ''user1'', password = ''password123''\<rparr>,
      \<lparr>user_id = 3, username = ''testuser'', password = ''test123''\<rparr>]"

definition initial_storage :: storage where
  "initial_storage =
     \<lparr>users_file = Some initial_users, sessions_file = Some [], event_logs_file = Some [],
      login_attempts_file = Some [], ip_reputation_file = Some []\<rparr>"

definition example_env :: login_env where
  "example_env =
     \<lparr>t_attempt = 1000, w_attempts = Written, sessionToken = ''5f2a'', t_expiry = 1001,
      t_created = 1003, w_sessions = Written, t_rep1 = 1004, t_rep2 = 1004, w_rep = Written\<rparr>"

definition example_request :: "string \<Rightarrow> string \<Rightarrow> bool option \<Rightarrow> login_request" where
  "example_request name secret remember =
     \<lparr>req_username = Some name, req_password = Some secret, req_deviceInfo = None,
      req_sessionId = Some ''session_1'', req_rememberMe = remember\<rparr>"

definition example_attempt :: "int \<Rightarrow> int \<Rightarrow> string \<Rightarrow> string \<Rightarrow> login_attempt" where
  "example_attempt n t ip status =
     \<lparr>attempt_id = n, att_timestamp = t, att_username = ''admin'',
      att_user_id = Some 1, att_session_id = None, att_ip_address = ip,
      att_device_fingerprint = None, att_user_agent = None, password_length = 8,
      remember_me = None, attempt_status = status, failure_reason = None\<rparr>"

definition example_storage :: "login_attempt list \<Rightarrow> storage" where
  "example_storage attempts = initial_storage\<lparr>login_attempts_file := Some attempts\<rparr>"

definition example_session :: "int \<Rightarrow> int \<Rightarrow> bool \<Rightarrow> session" where
  "example_session uid t active =
     \<lparr>ses_session_id = Some ''session_1'', ses_user_id = uid, session_token = ''5f2a'',
      ses_device_fingerprint = None, ses_ip_address = ''10.0.0.1'', ses_user_agent = None,
      created_at = t, expires_at = t + 86400000, is_active = active\<rparr>"

definition example_event :: "string \<Rightarrow> event_input" where
  "example_event kind =
     \<lparr>ev_timestamp = None, ev_sessionId = Some ''session_1'', eventType = Some kind,
      eventData = None, ev_deviceInfo = None\<rparr>"

text \<open>An element without any of the five properties, as \<open>{}\<close>, a number or a string is.\<close>

definition empty_event :: event_input where
  "empty_event =
     \<lparr>ev_timestamp = None, ev_sessionId = None, eventType = None,
      eventData = None, ev_deviceInfo = None\<rparr>"

definition example_clock :: "nat \<Rightarrow> int" where
  "example_clock i = 5000 + int i"

section \<open>Properties of the reputation records\<close>

lemma readJSON_simps [simp]: "readJSON (Some data) = data" "readJSON None = []"
  by (simp_all add: readJSON_def)

lemma writeJSON_simps [simp]:
  "writeJSON Written file data = (True, Some data)"
  "writeJSON Failed_untouched file data = (False, file)"
  "writeJSON Failed_truncated file data = (False, None)"
  by (simp_all add: writeJSON_def)

lemma findIndex_None: "findIndex P xs = None \<longleftrightarrow> find P xs = None"
  by (induction xs) auto

lemma findIndex_Some:
  "findIndex P xs = Some i \<Longrightarrow> i < length xs \<and> find P xs = Some (xs ! i) \<and> P (xs ! i)"
  by (induction xs arbitrary: i) (auto split: if_splits)

lemma find_update_first:
  "findIndex P xs = Some i \<Longrightarrow> P y \<Longrightarrow> find P (xs[i := y]) = Some y"
  by (induction xs arbitrary: i) (auto split: if_splits)

lemma find_append_new: "find P xs = None \<Longrightarrow> P y \<Longrightarrow> find P (xs @ [y]) = Some y"
  by (induction xs) (auto split: if_splits)

lemma ip_of_update_existing [simp]:
  "rep_ip_address (update_existing result t r) = rep_ip_address r"
  by (simp add: update_existing_def Let_def)

lemma ip_of_new_ip_record [simp]: "rep_ip_address (new_ip_record ip result t1 t2) = ip"
  by (simp add: new_ip_record_def)

text \<open>What one call does to the record of its address.\<close>

lemma ip_reputation_of_update:
  "ip_reputation_of ip (updateIPReputation ip result t1 t2 w file) =
     (case w of
        Written \<Rightarrow>
          (case ip_reputation_of ip file of
             Some r \<Rightarrow> Some (update_existing result t1 r)
           | None \<Rightarrow> Some (new_ip_record ip result t1 t2))
      | Failed_untouched \<Rightarrow> ip_reputation_of ip file
      | Failed_truncated \<Rightarrow> None)"
proof (cases "findIndex (\<lambda>r. rep_ip_address r = ip) (readJSON file)")
  case None
  then have "find (\<lambda>r. rep_ip_address r = ip) (readJSON file) = None"
    by (simp add: findIndex_None)
  with None show ?thesis
    by (cases w) (simp_all add: ip_reputation_of_def updateIPReputation_def find_append_new)
next
  case (Some i)
  from findIndex_Some [OF Some]
  have f: "find (\<lambda>r. rep_ip_address r = ip) (readJSON file) = Some (readJSON file ! i)"
    and p: "rep_ip_address (readJSON file ! i) = ip" by simp_all
  have "find (\<lambda>r. rep_ip_address r = ip)
          ((readJSON file)[i := update_existing result t1 (readJSON file ! i)])
        = Some (update_existing result t1 (readJSON file ! i))"
    using find_update_first [OF Some] p by simp
  with Some f show ?thesis
    by (cases w) (simp_all add: ip_reputation_of_def updateIPReputation_def Let_def)
qed

lemma update_existing_agree:
  "counters_agree r \<Longrightarrow> counters_agree (update_existing result t r)"
  by (auto simp: counters_agree_def update_existing_def Let_def)

lemma new_ip_record_agree: "counters_agree (new_ip_record ip result t1 t2)"
  by (simp add: counters_agree_def new_ip_record_def)

lemma observe_all_snoc:
  "observe_all ip (obs @ [(result, t1, t2, w)]) file =
     updateIPReputation ip result t1 t2 w (observe_all ip obs file)"
  by (simp add: observe_all_def)

lemma observe_all_take_Suc:
  assumes "n < length obs"
  shows "observe_all ip (take (Suc n) obs) file =
     (case obs ! n of (result, t1, t2, w) \<Rightarrow>
        updateIPReputation ip result t1 t2 w (observe_all ip (take n obs) file))"
  using assms by (simp add: take_Suc_conv_app_nth observe_all_def split: prod.splits)

lemma update_keeps_agreement:
  assumes "\<And>r. ip_reputation_of ip file = Some r \<Longrightarrow> counters_agree r"
    and "ip_reputation_of ip (updateIPReputation ip result t1 t2 w file) = Some r'"
  shows "counters_agree r'"
  using assms
  by (auto simp: ip_reputation_of_update update_existing_agree new_ip_record_agree
      split: write_outcome.splits option.splits)

lemma observe_all_keeps_agreement:
  assumes "\<And>r. ip_reputation_of ip stored = Some r \<Longrightarrow> counters_agree r"
    and "ip_reputation_of ip (observe_all ip obs stored) = Some r'"
  shows "counters_agree r'"
  using assms
proof (induction obs arbitrary: r' rule: rev_induct)
  case Nil
  then show ?case by (simp add: observe_all_def)
next
  case (snoc ob obs)
  obtain result t1 t2 w where ob: "ob = (result, t1, t2, w)" by (cases ob) auto
  show ?case
  proof (rule update_keeps_agreement)
    show "ip_reputation_of ip
            (updateIPReputation ip result t1 t2 w (observe_all ip obs stored)) = Some r'"
      using snoc.prems(2) by (simp add: ob observe_all_snoc)
    show "counters_agree r" if "ip_reputation_of ip (observe_all ip obs stored) = Some r" for r
      using snoc.IH [OF snoc.prems(1) that] .
  qed
qed

lemma update_score_direction:
  assumes "counters_agree r"
  shows "if result = ''success''
         then reputation_score r \<le> reputation_score (update_existing result t r)
         else reputation_score (update_existing result t r) \<le> reputation_score r"
  using assms by (auto simp: counters_agree_def update_existing_def Let_def)

text \<open>
  Claim C1. Observations of one address are applied in sequence to a collection that holds
  no record of the address. After every observation (every prefix of the sequence) the
  record of the address, when the collection holds one, has
  \<open>total_logins = successful_logins + failed_logins\<close> and a \<open>reputation_score\<close> in
  \<open>[0,100]\<close>; from one observation to the next a \<open>'success'\<close> never lowers the score
  and any other outcome never raises it; and the record exists after every observation
  whose write succeeded.
\<close>

theorem reputation_invariant:
  assumes "ip_reputation_of ip file = None"
  shows "(\<forall>n\<le>length obs. \<forall>r.
            ip_reputation_of ip (observe_all ip (take n obs) file) = Some r \<longrightarrow>
            total_logins r = successful_logins r + failed_logins r \<and>
            0 \<le> reputation_score r \<and> reputation_score r \<le> 100) \<and>
         (\<forall>n<length obs. \<forall>r r'.
            ip_reputation_of ip (observe_all ip (take n obs) file) = Some r \<and>
            ip_reputation_of ip (observe_all ip (take (Suc n) obs) file) = Some r' \<longrightarrow>
            (if fst (obs ! n) = ''success''
             then reputation_score r \<le> reputation_score r'
             else reputation_score r' \<le> reputation_score r)) \<and>
         (\<forall>n<length obs. snd (snd (snd (obs ! n))) = Written \<longrightarrow>
            ip_reputation_of ip (observe_all ip (take (Suc n) obs) file) \<noteq> None)"
proof (intro conjI allI impI)
  fix n r
  assume "ip_reputation_of ip (observe_all ip (take n obs) file) = Some r"
  then have "counters_agree r"
    using observe_all_keeps_agreement [where ip = ip and stored = "file" and obs = "take n obs"] assms by simp
  then show "total_logins r = successful_logins r + failed_logins r"
    "0 \<le> reputation_score r" "reputation_score r \<le> 100"
    by (simp_all add: counters_agree_def)
next
  fix n r r'
  assume n: "n < length obs"
    and rr: "ip_reputation_of ip (observe_all ip (take n obs) file) = Some r \<and>
      ip_reputation_of ip (observe_all ip (take (Suc n) obs) file) = Some r'"
  obtain result t1 t2 w where ob: "obs ! n = (result, t1, t2, w)" by (cases "obs ! n") auto
  have agree: "counters_agree r"
    using observe_all_keeps_agreement [where ip = ip and stored = "file" and obs = "take n obs"] assms rr by simp
  have "r' = r \<or> r' = update_existing result t1 r"
    using rr by (auto simp: observe_all_take_Suc [OF n] ob ip_reputation_of_update
        split: write_outcome.splits)
  then show "if fst (obs ! n) = ''success''
             then reputation_score r \<le> reputation_score r'
             else reputation_score r' \<le> reputation_score r"
    using update_score_direction [OF agree, of result t1] by (auto simp: ob)
next
  fix n
  assume n: "n < length obs" and w: "snd (snd (snd (obs ! n))) = Written"
  obtain result t1 t2 where ob: "obs ! n = (result, t1, t2, Written)"
    using w by (cases "obs ! n") auto
  show "ip_reputation_of ip (observe_all ip (take (Suc n) obs) file) \<noteq> None"
    by (simp add: observe_all_take_Suc [OF n] ob ip_reputation_of_update split: option.splits)
qed


text \<open>C1 at a first failure followed by a success, both written.\<close>

theorem reputation_invariant_witness:
  "ip_reputation_of ''10.0.0.1'' (Some []) = None \<and>
   ip_reputation_of ''10.0.0.1''
     (observe_all ''10.0.0.1''
        [(''failure'', 10, 11, Written), (''success'', 20, 20, Written)] (Some [])) \<noteq> None \<and>
   counters_agree (the (ip_reputation_of ''10.0.0.1''
     (observe_all ''10.0.0.1''
        [(''failure'', 10, 11, Written), (''success'', 20, 20, Written)] (Some []))))"
proof -
  let ?obs = "[(''failure'', 10, 11, Written), (''success'', 20, 20, Written)]"
  have h: "ip_reputation_of ''10.0.0.1'' (Some []) = None"
    by (simp add: ip_reputation_of_def)
  note inv = reputation_invariant [OF h, of ?obs]
  have "ip_reputation_of ''10.0.0.1'' (observe_all ''10.0.0.1'' (take (Suc 1) ?obs) (Some []))
              \<noteq> None"
    by (rule inv [THEN conjunct2, THEN conjunct2, rule_format, of 1]) simp_all
  then obtain r where r: "ip_reputation_of ''10.0.0.1'' (observe_all ''10.0.0.1'' ?obs (Some []))
      = Some r"
    by auto
  have "total_logins r = successful_logins r + failed_logins r \<and>
            0 \<le> reputation_score r \<and> reputation_score r \<le> 100"
    by (rule inv [THEN conjunct1, rule_format, of 2 r]) (simp_all add: r)
  then have "counters_agree r" by (simp add: counters_agree_def)
  with h r show ?thesis by simp
qed

text \<open>
  Claim C5, as amended. For an address without a record, the first observation whose write
  succeeds appends one record and that record is the one the lookup finds:
  \<open>total_logins = 1\<close>, \<open>reputation_score\<close> 95 on \<open>'success'\<close> and 90 otherwise, the
  success and failure counters split by the outcome, \<open>suspicious_activities\<close> 1 on
  failure and 0 on success, \<open>is_blocked = false\<close>. \<open>first_seen\<close> and \<open>last_seen\<close> are
  the two successive readings of the clock taken while the record is built, so they are
  equal exactly when the clock did not advance between the two readings.
\<close>

theorem first_observation_creates_record:
  assumes "ip_reputation_of ip file = None"
  shows "\<exists>r. updateIPReputation ip result t1 t2 Written file = Some (readJSON file @ [r]) \<and>
     ip_reputation_of ip (updateIPReputation ip result t1 t2 Written file) = Some r \<and>
     rep_ip_address r = ip \<and>
     total_logins r = 1 \<and>
     reputation_score r = (if result = ''success'' then 95 else 90) \<and>
     successful_logins r = (if result = ''success'' then 1 else 0) \<and>
     failed_logins r = (if result = ''success'' then 0 else 1) \<and>
     suspicious_activities r = (if result = ''success'' then 0 else 1) \<and>
     is_blocked r = False \<and>
     first_seen r = t1 \<and> last_seen r = t2"
proof -
  have "findIndex (\<lambda>r. rep_ip_address r = ip) (readJSON file) = None"
    using assms by (simp add: findIndex_None ip_reputation_of_def)
  then have "updateIPReputation ip result t1 t2 Written file =
      Some (readJSON file @ [new_ip_record ip result t1 t2])"
    by (simp add: updateIPReputation_def)
  moreover have "ip_reputation_of ip (updateIPReputation ip result t1 t2 Written file) =
      Some (new_ip_record ip result t1 t2)"
    using assms by (simp add: ip_reputation_of_update)
  ultimately show ?thesis
    by (simp add: new_ip_record_def)
qed

text \<open>C5 as amended, at a first failure whose two clock readings are 1000 and 1001.\<close>

theorem first_observation_creates_record_witness:
  "ip_reputation_of ''10.0.0.1'' (Some []) = None \<and>
   reputation_score (the (ip_reputation_of ''10.0.0.1''
      (updateIPReputation ''10.0.0.1'' ''failure'' 1000 1001 Written (Some [])))) = 90 \<and>
   first_seen (the (ip_reputation_of ''10.0.0.1''
      (updateIPReputation ''10.0.0.1'' ''failure'' 1000 1001 Written (Some [])))) = 1000 \<and>
   last_seen (the (ip_reputation_of ''10.0.0.1''
      (updateIPReputation ''10.0.0.1'' ''failure'' 1000 1001 Written (Some [])))) = 1001"
proof -
  have h: "ip_reputation_of ''10.0.0.1'' (Some []) = None"
    by (simp add: ip_reputation_of_def)
  from first_observation_creates_record [OF h, of "''failure''" 1000 1001]
  show ?thesis using h by auto
qed

text \<open>
  Claim C5 as stated asks for \<open>first_seen = last_seen\<close>. Lines 161 and 162 each read the
  clock; with the readings 1000 and 1001 the record created has different values.
\<close>

theorem first_seen_last_seen_counterexample:
  "ip_reputation_of ''10.0.0.1'' (Some []) = None \<and>
   ip_reputation_of ''10.0.0.1''
      (updateIPReputation ''10.0.0.1'' ''success'' 1000 1001 Written (Some [])) \<noteq> None \<and>
   first_seen (the (ip_reputation_of ''10.0.0.1''
      (updateIPReputation ''10.0.0.1'' ''success'' 1000 1001 Written (Some [])))) \<noteq>
   last_seen (the (ip_reputation_of ''10.0.0.1''
      (updateIPReputation ''10.0.0.1'' ''success'' 1000 1001 Written (Some []))))"
  by (simp add: ip_reputation_of_def updateIPReputation_def new_ip_record_def)

section \<open>Properties of the login handler\<close>

lemma login_attempts_after:
  assumes "given (req_username req)" and "given (req_password req)"
  shows "login_attempts_file (snd (login env ip req st)) =
     snd (writeJSON (w_attempts env) (login_attempts_file st)
       (readJSON (login_attempts_file st) @
          [pushed_attempt env ip req (readJSON (users_file st))
             (readJSON (login_attempts_file st))]))"
  using assms by (simp add: login_def Let_def split: option.splits)

lemma attempt_id_pushed [simp]:
  "attempt_id (pushed_attempt env ip req users xs) = int (length xs) + 1"
  by (simp add: pushed_attempt_def attemptRecord_def Let_def split: option.splits)

lemma remember_me_pushed [simp]:
  "remember_me (pushed_attempt env ip req users xs) = req_rememberMe req"
  by (simp add: pushed_attempt_def attemptRecord_def Let_def split: option.splits)

lemma Max_ids_in_sequence:
  assumes "ids_in_sequence xs" and "xs \<noteq> []"
  shows "Max (set (map attempt_id xs)) = int (length xs)"
proof -
  have s: "set (map attempt_id xs) = int ` {1..<Suc (length xs)}"
    using assms(1) by (simp add: ids_in_sequence_def del: set_map upt_Suc) (simp del: upt_Suc)
  show ?thesis
    unfolding s
  proof (rule Max_eqI)
    show "finite (int ` {1..<Suc (length xs)})" by simp
    show "y \<le> int (length xs)" if "y \<in> int ` {1..<Suc (length xs)}" for y
      using that by auto
    show "int (length xs) \<in> int ` {1..<Suc (length xs)}"
      using assms(2) by (cases xs) (auto simp: image_iff intro!: bexI [of _ "length xs"])
  qed
qed

lemma ids_in_sequence_snoc:
  assumes "ids_in_sequence xs" and "attempt_id a = int (length xs) + 1"
  shows "ids_in_sequence (xs @ [a])"
  using assms by (simp add: ids_in_sequence_def)

lemma ids_in_sequence_Nil [simp]: "ids_in_sequence []"
  by (simp add: ids_in_sequence_def)

text \<open>What a login does to the attempts (line 208 numbers by the length), and that it
  keeps identifiers that are in sequence in sequence.\<close>

lemma login_numbers_by_length:
  assumes "given (req_username req)" and "given (req_password req)"
  shows "(w_attempts env = Written \<longrightarrow>
           (\<exists>a. login_attempts_file (snd (login env ip req st)) =
                   Some (readJSON (login_attempts_file st) @ [a]) \<and>
                 attempt_id a = int (length (readJSON (login_attempts_file st))) + 1 \<and>
                 (ids_in_sequence (readJSON (login_attempts_file st)) \<longrightarrow>
                    attempt_id a = current_max_id_plus_one (readJSON (login_attempts_file st))))) \<and>
         (ids_in_sequence (readJSON (login_attempts_file st)) \<longrightarrow>
            ids_in_sequence (readJSON (login_attempts_file (snd (login env ip req st)))))"
proof -
  let ?xs = "readJSON (login_attempts_file st)"
  let ?a = "pushed_attempt env ip req (readJSON (users_file st)) ?xs"
  note after = login_attempts_after [OF assms, of env ip st]
  have mx: "attempt_id ?a = current_max_id_plus_one ?xs" if "ids_in_sequence ?xs"
    using Max_ids_in_sequence [OF that] by (simp add: current_max_id_plus_one_def)
  have "ids_in_sequence (readJSON (login_attempts_file (snd (login env ip req st))))"
    if "ids_in_sequence ?xs"
    unfolding after using that by (cases "w_attempts env") (simp_all add: ids_in_sequence_snoc)
  moreover have "\<exists>a. login_attempts_file (snd (login env ip req st)) = Some (?xs @ [a]) \<and>
      attempt_id a = int (length ?xs) + 1 \<and>
      (ids_in_sequence ?xs \<longrightarrow> attempt_id a = current_max_id_plus_one ?xs)"
    if "w_attempts env = Written"
    unfolding after using that mx by simp
  ultimately show ?thesis by blast
qed

lemma login_keeps_ids_in_sequence:
  assumes "ids_in_sequence (readJSON (login_attempts_file st))"
  shows "ids_in_sequence (readJSON (login_attempts_file (snd (login env ip req st))))"
proof (cases "given (req_username req) \<and> given (req_password req)")
  case True
  then show ?thesis
    using login_numbers_by_length [of req env ip st] assms by blast
next
  case False
  then show ?thesis
    using assms by (auto simp: login_def)
qed

lemma log_event_keeps_attempts [simp]:
  "login_attempts_file (snd (log_event now w ip e st)) = login_attempts_file st"
  by (simp add: log_event_def Let_def)

lemma log_batch_keeps_attempts [simp]:
  "login_attempts_file (snd (log_batch clock w ip events st)) = login_attempts_file st"
  by (simp add: log_batch_def Let_def split: prod.splits)

lemma serve_keeps_ids_in_sequence:
  assumes "ids_in_sequence (readJSON (login_attempts_file st))"
  shows "ids_in_sequence (readJSON (login_attempts_file (serve st r)))"
  using assms by (cases r) (simp_all add: login_keeps_ids_in_sequence)

lemma serve_all_ids_in_sequence:
  assumes "readJSON (login_attempts_file st0) = []"
  shows "ids_in_sequence (readJSON (login_attempts_file (serve_all requests st0)))"
proof (induction requests rule: rev_induct)
  case Nil
  then show ?case using assms by (simp add: serve_all_def)
next
  case (snoc r requests)
  then show ?case
    using serve_keeps_ids_in_sequence [of "serve_all requests st0" r]
    by (simp add: serve_all_def)
qed

text \<open>
  Claim C4. The states of the attempt ledger are those the program brings about: the
  ledger starts empty (\<open>initializeStorage\<close> writes \<open>[]\<close>, and a missing file reads as
  \<open>[]\<close>) and changes only by the requests served, whatever they are and whatever the
  outcomes of their writes. In every such state a login request with a user name and a
  password builds one record whose \<open>attempt_id\<close> is the greatest \<open>attempt_id\<close> of the
  ledger plus 1, or 1 if the ledger is empty, and hands to \<open>writeJSON\<close> the ledger it read
  with that record appended at the end.
\<close>

theorem attempt_id_is_next:
  assumes "readJSON (login_attempts_file st0) = []"
    and "given (req_username req)" and "given (req_password req)"
  shows "\<exists>a. login_attempts_file (snd (login env ip req (serve_all requests st0))) =
           snd (writeJSON (w_attempts env) (login_attempts_file (serve_all requests st0))
                  (readJSON (login_attempts_file (serve_all requests st0)) @ [a])) \<and>
         attempt_id a =
           current_max_id_plus_one (readJSON (login_attempts_file (serve_all requests st0)))"
proof -
  let ?st = "serve_all requests st0"
  let ?xs = "readJSON (login_attempts_file ?st)"
  let ?a = "pushed_attempt env ip req (readJSON (users_file ?st)) ?xs"
  have "ids_in_sequence ?xs"
    using serve_all_ids_in_sequence [OF assms(1)] .
  then have "attempt_id ?a = current_max_id_plus_one ?xs"
    using Max_ids_in_sequence [of ?xs] by (simp add: current_max_id_plus_one_def)
  then show ?thesis
    using login_attempts_after [OF assms(2,3), of env ip ?st] by blast
qed

text \<open>C4 after one failed login on the initial storage: the next attempt gets 2.\<close>

theorem attempt_id_is_next_witness:
  "readJSON (login_attempts_file initial_storage) = [] \<and>
   given (req_username (example_request ''admin'' ''admin123'' None)) \<and>
   given (req_password (example_request ''admin'' ''admin123'' None)) \<and>
   map attempt_id (readJSON (login_attempts_file (snd (login example_env ''10.0.0.1''
     (example_request ''admin'' ''admin123'' None)
     (serve_all [Post_login example_env ''10.0.0.1'' (example_request ''admin'' ''wrongpass'' None)]
        initial_storage))))) = [1, 2] \<and>
   current_max_id_plus_one (readJSON (login_attempts_file
     (serve_all [Post_login example_env ''10.0.0.1'' (example_request ''admin'' ''wrongpass'' None)]
        initial_storage))) = 2"
proof -
  let ?req = "example_request ''admin'' ''admin123'' None"
  let ?reqs = "[Post_login example_env ''10.0.0.1'' (example_request ''admin'' ''wrongpass'' None)]"
  have e: "readJSON (login_attempts_file initial_storage) = []"
    by (simp add: initial_storage_def)
  have g: "given (req_username ?req)" "given (req_password ?req)"
    by (simp_all add: example_request_def given_def)
  have m: "map attempt_id (readJSON (login_attempts_file (snd (login example_env ''10.0.0.1''
     ?req (serve_all ?reqs initial_storage))))) = [1, 2]"
    by code_simp
  have w: "w_attempts example_env = Written" by (simp add: example_env_def)
  from attempt_id_is_next [OF e g, of example_env "''10.0.0.1''" ?reqs]
  obtain a where a:
    "login_attempts_file (snd (login example_env ''10.0.0.1'' ?req (serve_all ?reqs initial_storage)))
       = snd (writeJSON (w_attempts example_env)
           (login_attempts_file (serve_all ?reqs initial_storage))
           (readJSON (login_attempts_file (serve_all ?reqs initial_storage)) @ [a]))"
    "attempt_id a = current_max_id_plus_one
       (readJSON (login_attempts_file (serve_all ?reqs initial_storage)))"
    by blast
  from a(1) m have "attempt_id a = 2" by (simp add: w)
  with a(2) have "current_max_id_plus_one
       (readJSON (login_attempts_file (serve_all ?reqs initial_storage))) = 2"
    by simp
  with e g m show ?thesis by blast
qed

lemma login_success_sessions:
  assumes "http_status (fst (login env ip req st)) = 200"
  shows "\<exists>u. find (\<lambda>u. username u = the (req_username req)) (readJSON (users_file st)) = Some u \<and>
     password u = the (req_password req) \<and>
     sessions_file (snd (login env ip req st)) =
       snd (writeJSON (w_sessions env) (sessions_file st)
              (readJSON (sessions_file st) @ [new_session env ip req u])) \<and>
     resp_data (fst (login env ip req st)) =
       Login_data (user_id u) (username u) (sessionToken env)
         (expires_at (new_session env ip req u)) (req_sessionId req)"
  using assms by (auto simp: login_def Let_def split: option.splits if_splits)

lemma new_session_ignores_rememberMe:
  "new_session env ip (req\<lparr>req_rememberMe := r\<rparr>) u = new_session env ip req u"
  by (simp add: new_session_def)

lemma login_sessions_ignore_rememberMe:
  "sessions_file (snd (login env ip (req\<lparr>req_rememberMe := r\<rparr>) st)) =
   sessions_file (snd (login env ip req st))"
  by (simp add: login_def Let_def new_session_def split: option.splits)

text \<open>
  Claim C10, as amended. A login answered with status 200, whose write of the sessions
  succeeds, appends one session. Its \<open>expires_at\<close> is exactly 24 hours after the clock
  reading of line 247, taken before the sessions are read; its \<open>created_at\<close> is the later
  reading of line 257. So \<open>expires_at - created_at\<close> is 24 hours less the time between
  the two readings. The session written is the same for every value of \<open>rememberMe\<close>,
  which is recorded on the attempt.
\<close>

theorem session_expiry:
  assumes "http_status (fst (login env ip req st)) = 200" and "w_sessions env = Written"
  shows "\<exists>s. sessions_file (snd (login env ip req st)) = Some (readJSON (sessions_file st) @ [s]) \<and>
     expires_at s = t_expiry env + 24 * 60 * 60 * 1000 \<and>
     created_at s = t_created env \<and>
     expires_at s - created_at s = 24 * 60 * 60 * 1000 - (t_created env - t_expiry env) \<and>
     (\<forall>r. sessions_file (snd (login env ip (req\<lparr>req_rememberMe := r\<rparr>) st)) =
          Some (readJSON (sessions_file st) @ [s])) \<and>
     (w_attempts env = Written \<longrightarrow>
        remember_me (last (readJSON (login_attempts_file (snd (login env ip req st)))))
          = req_rememberMe req)"
proof -
  have g: "given (req_username req)" "given (req_password req)"
    using assms(1) by (auto simp: login_def split: if_splits)
  have rm: "remember_me (last (readJSON (login_attempts_file (snd (login env ip req st)))))
      = req_rememberMe req" if "w_attempts env = Written"
    using that by (simp add: login_attempts_after [OF g])
  from login_success_sessions [OF assms(1)] obtain u where
    u: "sessions_file (snd (login env ip req st)) =
       snd (writeJSON (w_sessions env) (sessions_file st)
              (readJSON (sessions_file st) @ [new_session env ip req u]))"
    by blast
  have "sessions_file (snd (login env ip req st)) =
      Some (readJSON (sessions_file st) @ [new_session env ip req u])"
    using u assms(2) by simp
  then show ?thesis
    using rm
    by (intro exI [of _ "new_session env ip req u"])
       (simp add: login_sessions_ignore_rememberMe, simp add: new_session_def)
qed

text \<open>C10 as amended, at the login of \<open>admin\<close> with the readings 1001 and 1003.\<close>

theorem session_expiry_witness:
  "http_status (fst (login example_env ''10.0.0.1''
      (example_request ''admin'' ''admin123'' (Some True)) initial_storage)) = 200 \<and>
   w_sessions example_env = Written \<and>
   map expires_at (readJSON (sessions_file (snd (login example_env ''10.0.0.1''
      (example_request ''admin'' ''admin123'' (Some True)) initial_storage)))) = [86401001] \<and>
   map created_at (readJSON (sessions_file (snd (login example_env ''10.0.0.1''
      (example_request ''admin'' ''admin123'' (Some True)) initial_storage)))) = [1003]"
proof -
  let ?req = "example_request ''admin'' ''admin123'' (Some True)"
  have h: "http_status (fst (login example_env ''10.0.0.1'' ?req initial_storage)) = 200"
    by code_simp
  have w: "w_sessions example_env = Written" by (simp add: example_env_def)
  from session_expiry [OF h w] obtain s where
    s: "sessions_file (snd (login example_env ''10.0.0.1'' ?req initial_storage)) =
          Some (readJSON (sessions_file initial_storage) @ [s])"
      "expires_at s = t_expiry example_env + 24 * 60 * 60 * 1000"
      "created_at s = t_created example_env"
    by blast
  then have "map expires_at (readJSON (sessions_file (snd (login example_env ''10.0.0.1''
      ?req initial_storage)))) = [86401001]"
    and "map created_at (readJSON (sessions_file (snd (login example_env ''10.0.0.1''
      ?req initial_storage)))) = [1003]"
    by (simp_all add: initial_storage_def example_env_def)
  with h w show ?thesis by blast
qed

text \<open>
  Claim C10 as stated puts \<open>expires_at\<close> exactly 24 hours after \<open>created_at\<close>. With
  the clock at 1001 on line 247 and at 1003 on line 257, after the read of the sessions,
  the two are 2 milliseconds less than 24 hours apart.
\<close>

theorem session_expiry_counterexample:
  "http_status (fst (login example_env ''10.0.0.1''
      (example_request ''admin'' ''admin123'' (Some True)) initial_storage)) = 200 \<and>
   expires_at (last (readJSON (sessions_file (snd (login example_env
      ''10.0.0.1'' (example_request ''admin'' ''admin123'' (Some True)) initial_storage))))) -
   created_at (last (readJSON (sessions_file (snd (login example_env
      ''10.0.0.1'' (example_request ''admin'' ''admin123'' (Some True)) initial_storage)))))
     \<noteq> 24 * 60 * 60 * 1000"
  by code_simp

section \<open>Properties of two requests on one collection\<close>

lemma request_runs_alone:
  "request_step record_of (request_step record_of (file, Before_read)) =
     (Some (readJSON file @ [record_of (readJSON file)]), After_write)"
  by simp

text \<open>The two steps, taken one after the other, are the append of the login handler.\<close>

lemma login_is_two_steps:
  assumes "given (req_username req)" and "given (req_password req)"
    and "w_attempts env = Written"
  shows "login_attempts_file (snd (login env ip req st)) =
     fst (request_step (pushed_attempt env ip req (readJSON (users_file st)))
            (request_step (pushed_attempt env ip req (readJSON (users_file st)))
               (login_attempts_file st, Before_read)))"
  using assms by (simp add: login_attempts_after)

text \<open>
  Claim C2, as amended. Two read-modify-write operations on one collection that do not
  overlap, the one writing before the other reads, lose no update: in either order the
  collection ends with both records appended to what it held.
\<close>

theorem updates_in_turn_keep_both:
  "interleave ra rb [First, First, Second, Second] (file, Before_read, Before_read) =
     (Some (readJSON file @ [ra (readJSON file), rb (readJSON file @ [ra (readJSON file)])]),
      After_write, After_write) \<and>
   interleave ra rb [Second, Second, First, First] (file, Before_read, Before_read) =
     (Some (readJSON file @ [rb (readJSON file), ra (readJSON file @ [rb (readJSON file)])]),
      After_write, After_write)"
  by simp

text \<open>
  Claim C2 as stated covers every interleaving. Two logins on the empty ledger whose reads
  both come before both writes each build their record from the empty array, and the
  second write replaces the first: the ledger ends with one record, and the attempt of
  \<open>admin\<close> is not in it.
\<close>

theorem lost_update_counterexample:
  "interleave
     (pushed_attempt example_env ''10.0.0.1'' (example_request ''admin'' ''admin123'' None)
        initial_users)
     (pushed_attempt example_env ''10.0.0.2'' (example_request ''user1'' ''password123'' None)
        initial_users)
     [First, Second, First, Second] (Some [], Before_read, Before_read)
   = (Some [pushed_attempt example_env ''10.0.0.2''
              (example_request ''user1'' ''password123'' None) initial_users []],
      After_write, After_write) \<and>
   pushed_attempt example_env ''10.0.0.1'' (example_request ''admin'' ''admin123'' None)
      initial_users []
   \<noteq> pushed_attempt example_env ''10.0.0.2'' (example_request ''user1'' ''password123'' None)
      initial_users []"
  by (simp add: pushed_attempt_def attemptRecord_def initial_users_def example_request_def)

text \<open>Each of the four schedules in which the two requests overlap ends with the record
  of one request only.\<close>

lemma overlapping_schedules_lose:
  "interleave ra rb [First, Second, First, Second] (file, Before_read, Before_read) =
     (Some (readJSON file @ [rb (readJSON file)]), After_write, After_write)"
  "interleave ra rb [Second, First, First, Second] (file, Before_read, Before_read) =
     (Some (readJSON file @ [rb (readJSON file)]), After_write, After_write)"
  "interleave ra rb [First, Second, Second, First] (file, Before_read, Before_read) =
     (Some (readJSON file @ [ra (readJSON file)]), After_write, After_write)"
  "interleave ra rb [Second, First, Second, First] (file, Before_read, Before_read) =
     (Some (readJSON file @ [ra (readJSON file)]), After_write, After_write)"
  by simp_all

section \<open>Properties of the session lookup\<close>

text \<open>
  Claim C6, as amended. The lookup of a session by its session id answers the first record
  of the collection, in the order of insertion and so the one created earliest, whose
  \<open>session_id\<close> is the one asked for, whether the record is active or not; it answers
  none exactly when no record has that \<open>session_id\<close>.
\<close>

theorem find_by_session_id_first_match:
  "find_by_session_id sessions sessionId =
     (case filter (\<lambda>s. ses_session_id s = sessionId) sessions of
        [] \<Rightarrow> None
      | s # rest \<Rightarrow> Some s)"
  by (induction sessions) (simp_all add: find_by_session_id_def)

text \<open>
  Claim C6 as stated asks for the most recently created active record. With two active
  sessions of one session id, as two logins from one page leave them, the lookup answers
  the older one; and a record that is not active is answered as well.
\<close>

theorem find_by_session_id_counterexample:
  "find_by_session_id [example_session 1 1000 True, example_session 2 2000 True]
     (Some ''session_1'') = Some (example_session 1 1000 True) \<and>
   most_recent_active [example_session 1 1000 True, example_session 2 2000 True]
     (Some ''session_1'') = Some (example_session 2 2000 True) \<and>
   example_session 1 1000 True \<noteq> example_session 2 2000 True \<and>
   find_by_session_id [example_session 1 1000 False] (Some ''session_1'')
     = Some (example_session 1 1000 False) \<and>
   most_recent_active [example_session 1 1000 False] (Some ''session_1'') = None"
  by (simp add: find_by_session_id_def most_recent_active_def example_session_def)

section \<open>Properties of the batch\<close>

lemma length_entries_of:
  "length (entries_of events) + length (filter (\<lambda>e. e = Null_entry) events) = length events"
  by (induction events rule: entries_of.induct) simp_all

lemma enumerate_shift:
  "map f (enumerate (Suc n) xs) = map (\<lambda>(k, x). f (Suc k, x)) (enumerate n xs)"
  by (induction xs arbitrary: n) simp_all

lemma snd_indexed_entries: "map snd (indexed_entries i events) = entries_of events"
  by (induction i events rule: indexed_entries.induct) simp_all

lemma batch_loop_exact:
  "batch_loop clock ip sessions i events (eventLogs, loggedCount, failedCount) =
     (eventLogs @
        map (\<lambda>(k, j, e).
               logEntry (int (length eventLogs) + int loggedCount + 2 * int k + 1) (clock j)
                 ip sessions e)
          (enumerate 0 (indexed_entries i events)),
      loggedCount + length (entries_of events),
      failedCount + length (filter (\<lambda>e. e = Null_entry) events))"
proof (induction events arbitrary: i eventLogs loggedCount failedCount rule: entries_of.induct)
  case 1
  then show ?case by simp
next
  case (2 events)
  from 2 [of "Suc i" eventLogs loggedCount "failedCount + 1"] show ?case
    by simp
next
  case (3 e events)
  let ?entry = "logEntry (int (length eventLogs) + int loggedCount + 1) (clock i) ip sessions e"
  have sh: "map (\<lambda>(k, j, e').
               logEntry (int (length eventLogs) + int loggedCount + 2 * int k + 1) (clock j)
                 ip sessions e') (enumerate (Suc 0) xs)
      = map (\<lambda>(k, j, e').
               logEntry (int (length (eventLogs @ [?entry])) + int (loggedCount + 1) + 2 * int k + 1)
                 (clock j) ip sessions e') (enumerate 0 xs)" for xs
    unfolding enumerate_shift
    by (rule map_cong) (auto simp: algebra_simps)
  from 3 [of "Suc i" "eventLogs @ [?entry]" "loggedCount + 1" failedCount] sh
  show ?case by simp
qed

text \<open>
  Claim C8, as amended. For every non-empty batch the loop runs over all elements and
  treats each by itself. An element on which the processing raises, which for the elements
  of a JSON array is \<open>null\<close> alone, adds 1 to \<open>failedCount\<close> and is skipped without
  ending the loop. Every other element is appended, also one that lacks \<open>sessionId\<close>,
  \<open>eventType\<close> or every property, or that is no object: the entry appended for the
  \<open>k\<close>-th of them is the \<open>logEntry\<close> of that element with the properties it has, the
  clock of its position and the \<open>log_id\<close> of line 377. The answer is 201 with
  \<open>eventsLogged\<close> the number of elements that are not \<open>null\<close> and \<open>failedEvents\<close> the
  number of \<open>null\<close> elements, the two adding up to the size of the batch. The old ledger
  followed by the appended entries is handed to \<open>writeJSON\<close>; when that write succeeds,
  and only then, the ledger grows, by exactly \<open>eventsLogged\<close>.
\<close>

theorem batch_counts:
  assumes "events \<noteq> []"
  shows "fst (log_batch clock w ip (Some events) st) =
       \<lparr>http_status = 201, resp_message = ''Batch logged successfully'',
        resp_data = Logged_batch (length (entries_of events))
                      (length (filter (\<lambda>e. e = Null_entry) events))\<rparr> \<and>
     length (entries_of events) + length (filter (\<lambda>e. e = Null_entry) events) = length events \<and>
     map snd (indexed_entries 0 events) = entries_of events \<and>
     event_logs_file (snd (log_batch clock w ip (Some events) st)) =
       snd (writeJSON w (event_logs_file st)
         (readJSON (event_logs_file st) @
            map (\<lambda>(k, j, e).
                   logEntry (int (length (readJSON (event_logs_file st))) + 2 * int k + 1)
                     (clock j) ip (readJSON (sessions_file st)) e)
              (enumerate 0 (indexed_entries 0 events)))) \<and>
     (w = Written \<longrightarrow>
        length (readJSON (event_logs_file (snd (log_batch clock w ip (Some events) st)))) =
          length (readJSON (event_logs_file st)) + length (entries_of events))"
proof -
  note loop = batch_loop_exact [of clock ip "readJSON (sessions_file st)" 0 events
      "readJSON (event_logs_file st)" 0 0]
  have r: "fst (log_batch clock w ip (Some events) st) =
       \<lparr>http_status = 201, resp_message = ''Batch logged successfully'',
        resp_data = Logged_batch (length (entries_of events))
                      (length (filter (\<lambda>e. e = Null_entry) events))\<rparr>"
    using assms by (simp add: log_batch_def Let_def loop)
  have f: "event_logs_file (snd (log_batch clock w ip (Some events) st)) =
       snd (writeJSON w (event_logs_file st)
         (readJSON (event_logs_file st) @
            map (\<lambda>(k, j, e).
                   logEntry (int (length (readJSON (event_logs_file st))) + 2 * int k + 1)
                     (clock j) ip (readJSON (sessions_file st)) e)
              (enumerate 0 (indexed_entries 0 events))))"
    using assms by (simp add: log_batch_def Let_def loop)
  have l: "length (indexed_entries 0 events) = length (entries_of events)"
    using snd_indexed_entries [of 0 events, THEN arg_cong, of length] by simp
  have g: "length (readJSON (event_logs_file (snd (log_batch clock w ip (Some events) st)))) =
          length (readJSON (event_logs_file st)) + length (entries_of events)"
    if "w = Written"
    unfolding f using that l by simp
  show ?thesis
    using r f g length_entries_of [of events] snd_indexed_entries [of 0 events] by blast
qed

text \<open>C8 as amended, at three events and one \<open>null\<close>: \<open>eventsLogged = 3\<close>,
  \<open>failedEvents = 1\<close>, and with the write succeeding the ledger grows by 3.\<close>

theorem batch_counts_witness:
  "[Entry (example_event ''click''), Null_entry, Entry (example_event ''key''),
    Entry (example_event ''focus'')] \<noteq> [] \<and>
   resp_data (fst (log_batch example_clock Written ''10.0.0.1''
     (Some [Entry (example_event ''click''), Null_entry, Entry (example_event ''key''),
            Entry (example_event ''focus'')]) initial_storage)) = Logged_batch 3 1 \<and>
   length (readJSON (event_logs_file (snd (log_batch example_clock Written ''10.0.0.1''
     (Some [Entry (example_event ''click''), Null_entry, Entry (example_event ''key''),
            Entry (example_event ''focus'')]) initial_storage))))
     = length (readJSON (event_logs_file initial_storage)) + 3"
proof -
  let ?events = "[Entry (example_event ''click''), Null_entry, Entry (example_event ''key''),
    Entry (example_event ''focus'')]"
  have ne: "?events \<noteq> []" by simp
  note b = batch_counts [OF ne, of example_clock Written "''10.0.0.1''" initial_storage]
  have "fst (log_batch example_clock Written ''10.0.0.1'' (Some ?events) initial_storage) =
       \<lparr>http_status = 201, resp_message = ''Batch logged successfully'',
        resp_data = Logged_batch (length (entries_of ?events))
                      (length (filter (\<lambda>e. e = Null_entry) ?events))\<rparr>"
    using b by blast
  moreover have "length (readJSON (event_logs_file (snd (log_batch example_clock Written
      ''10.0.0.1'' (Some ?events) initial_storage)))) =
          length (readJSON (event_logs_file initial_storage)) + length (entries_of ?events)"
    using b by blast
  ultimately show ?thesis by simp
qed

text \<open>
  Claim C8 as stated has every malformed element counted as failed and skipped. A batch of
  three events with \<open>sessionId\<close> and \<open>eventType\<close> and one element without any
  property, which the specification's interface makes invalid, is answered
  \<open>eventsLogged = 4\<close>, \<open>failedEvents = 0\<close>, and the ledger grows by 4, not by 3.
\<close>

theorem batch_logs_incomplete_event_counterexample:
  "has_required_fields (Entry (example_event ''click'')) \<and>
   has_required_fields (Entry (example_event ''key'')) \<and>
   has_required_fields (Entry (example_event ''focus'')) \<and>
   \<not> has_required_fields (Entry empty_event) \<and>
   resp_data (fst (log_batch example_clock Written ''10.0.0.1''
     (Some [Entry (example_event ''click''), Entry empty_event, Entry (example_event ''key''),
            Entry (example_event ''focus'')]) initial_storage)) = Logged_batch 4 0 \<and>
   length (readJSON (event_logs_file (snd (log_batch example_clock Written ''10.0.0.1''
     (Some [Entry (example_event ''click''), Entry empty_event, Entry (example_event ''key''),
            Entry (example_event ''focus'')]) initial_storage)))) = 4 \<and>
   length (readJSON (event_logs_file initial_storage)) = 0"
  by code_simp

text \<open>
  Claim C3 at a batch of three events on the empty ledger. Line 377 adds \<open>loggedCount\<close>
  to \<open>eventLogs.length\<close>, which the push of line 392 has already advanced, so the
  identifiers are 1, 3, 5 and not 1, 2, 3. The single event logged next gets 4 (line 308),
  below the greatest identifier of the ledger.
\<close>

theorem batch_ids_skip:
  "map log_id (readJSON (event_logs_file (snd (log_batch example_clock Written ''10.0.0.1''
     (Some [Entry (example_event ''click''), Entry (example_event ''key''),
            Entry (example_event ''focus'')]) initial_storage)))) = [1, 3, 5] \<and>
   map log_id (readJSON (event_logs_file (snd (log_event 6000 Written ''10.0.0.1''
     (example_event ''blur'')
     (snd (log_batch example_clock Written ''10.0.0.1''
       (Some [Entry (example_event ''click''), Entry (example_event ''key''),
              Entry (example_event ''focus'')]) initial_storage)))))) = [1, 3, 5, 4]"
  by code_simp

text \<open>
  Claim C9 at writes that fail. \<open>writeJSON\<close> answers \<open>false\<close> and no handler reads
  the answer: the event is answered 201 \<open>Event logged successfully\<close> and the batch 201
  while the ledger is still empty.
\<close>

theorem write_failure_answers_success:
  "http_status (fst (log_event 6000 Failed_untouched ''10.0.0.1'' (example_event ''click'')
      initial_storage)) = 201 \<and>
   resp_message (fst (log_event 6000 Failed_untouched ''10.0.0.1'' (example_event ''click'')
      initial_storage)) = ''Event logged successfully'' \<and>
   event_logs_file (snd (log_event 6000 Failed_untouched ''10.0.0.1'' (example_event ''click'')
      initial_storage)) = Some [] \<and>
   http_status (fst (log_batch example_clock Failed_untouched ''10.0.0.1''
      (Some [Entry (example_event ''click'')]) initial_storage)) = 201 \<and>
   event_logs_file (snd (log_batch example_clock Failed_untouched ''10.0.0.1''
      (Some [Entry (example_event ''click'')]) initial_storage)) = Some []"
  by code_simp

text \<open>The same for a login whose three writes fail.\<close>

lemma login_write_failure_answers_success:
  "http_status (fst (login
      (example_env\<lparr>w_attempts := Failed_untouched, w_sessions := Failed_untouched,
         w_rep := Failed_untouched\<rparr>)
      ''10.0.0.1'' (example_request ''admin'' ''admin123'' None) initial_storage)) = 200 \<and>
   snd (login
      (example_env\<lparr>w_attempts := Failed_untouched, w_sessions := Failed_untouched,
         w_rep := Failed_untouched\<rparr>)
      ''10.0.0.1'' (example_request ''admin'' ''admin123'' None) initial_storage)
     = initial_storage"
  by code_simp

text \<open>No outcome of a write leads a handler to the answer 500.\<close>

lemma handlers_never_answer_500:
  "http_status (fst (log_event now w ip e st)) \<noteq> 500"
  "http_status (fst (log_batch clock w ip events st)) \<noteq> 500"
  "http_status (fst (login env ip req st)) \<noteq> 500"
  by (auto simp: log_event_def log_batch_def login_def Let_def split: prod.splits option.splits)

section \<open>Properties of the login statistics\<close>

lemma hoursAgo_simps [simp]: "hoursAgo (Some ''1h'') = 1" "hoursAgo (Some ''24h'') = 24"
  "hoursAgo (Some ''7d'') = 168" "hoursAgo None = 24"
  by (simp_all add: hoursAgo_def)

lemma length_filter_mono:
  "(\<And>x. x \<in> set xs \<Longrightarrow> P x \<Longrightarrow> Q x) \<Longrightarrow> length (filter P xs) \<le> length (filter Q xs)"
  by (induction xs) auto

lemma recent_1h_from_24h:
  "recentAttempts now (Some ''1h'') xs =
     filter (\<lambda>a. att_timestamp a > now - 1 * 60 * 60 * 1000) (recentAttempts now (Some ''24h'') xs)"
  by (auto simp: recentAttempts_def Let_def intro: filter_cong)

lemma recent_1h_subset:
  "set (recentAttempts now (Some ''1h'') xs) \<subseteq> set (recentAttempts now (Some ''24h'') xs)"
  by (auto simp: recentAttempts_def)

lemma bucket_mono:
  assumes "set xs \<subseteq> set ys"
    and "length (filter (\<lambda>a. attempt_status a = status) xs)
          \<le> length (filter (\<lambda>a. attempt_status a = status) ys)"
  shows "count (stats_bucket status xs) \<le> count (stats_bucket status ys) \<and>
         unique_ips (stats_bucket status xs) \<le> unique_ips (stats_bucket status ys) \<and>
         unique_users (stats_bucket status xs) \<le> unique_users (stats_bucket status ys)"
proof -
  have sub: "set (filter (\<lambda>a. attempt_status a = status) xs)
        \<subseteq> set (filter (\<lambda>a. attempt_status a = status) ys)"
    using assms(1) by auto
  have "card (att_ip_address ` set (filter (\<lambda>a. attempt_status a = status) xs))
      \<le> card (att_ip_address ` set (filter (\<lambda>a. attempt_status a = status) ys))"
    by (rule card_mono) (use sub in auto)
  moreover have "card (att_username ` set (filter (\<lambda>a. attempt_status a = status) xs))
      \<le> card (att_username ` set (filter (\<lambda>a. attempt_status a = status) ys))"
    by (rule card_mono) (use sub in auto)
  ultimately show ?thesis
    using assms(2) by (simp add: stats_bucket_def)
qed

lemma recent_bucket_count:
  "length (filter (\<lambda>a. attempt_status a = status) (recentAttempts now (Some ''1h'') xs))
     \<le> length (filter (\<lambda>a. attempt_status a = status) (recentAttempts now (Some ''24h'') xs))"
  unfolding recentAttempts_def Let_def filter_filter
  by (rule length_filter_mono) auto

text \<open>
  Claim C7. For every attempt ledger and every \<open>now\<close>, the attempts selected for
  \<open>timeRange = '1h'\<close> are those of the attempts selected for \<open>'24h'\<close> that are younger
  than one hour, hence a subset of them; and in both buckets of the answer, \<open>SUCCESS\<close>
  and \<open>FAILURE\<close>, the count, the number of different addresses and the number of
  different user names for \<open>'1h'\<close> are at most those for \<open>'24h'\<close>.
\<close>

theorem stats_1h_within_24h:
  "recentAttempts now (Some ''1h'') (readJSON (login_attempts_file st)) =
     filter (\<lambda>a. att_timestamp a > now - 60 * 60 * 1000)
       (recentAttempts now (Some ''24h'') (readJSON (login_attempts_file st))) \<and>
   set (recentAttempts now (Some ''1h'') (readJSON (login_attempts_file st)))
     \<subseteq> set (recentAttempts now (Some ''24h'') (readJSON (login_attempts_file st))) \<and>
   (\<exists>s1 f1 s24 f24.
      resp_data (login_stats now (Some ''1h'') st) = Login_stats s1 f1 \<and>
      resp_data (login_stats now (Some ''24h'') st) = Login_stats s24 f24 \<and>
      count s1 \<le> count s24 \<and> unique_ips s1 \<le> unique_ips s24 \<and>
      unique_users s1 \<le> unique_users s24 \<and>
      count f1 \<le> count f24 \<and> unique_ips f1 \<le> unique_ips f24 \<and>
      unique_users f1 \<le> unique_users f24)"
proof -
  let ?xs = "readJSON (login_attempts_file st)"
  have b: "count (stats_bucket status (recentAttempts now (Some ''1h'') ?xs))
        \<le> count (stats_bucket status (recentAttempts now (Some ''24h'') ?xs)) \<and>
      unique_ips (stats_bucket status (recentAttempts now (Some ''1h'') ?xs))
        \<le> unique_ips (stats_bucket status (recentAttempts now (Some ''24h'') ?xs)) \<and>
      unique_users (stats_bucket status (recentAttempts now (Some ''1h'') ?xs))
        \<le> unique_users (stats_bucket status (recentAttempts now (Some ''24h'') ?xs))"
    for status
    by (rule bucket_mono [OF recent_1h_subset recent_bucket_count])
  have d: "resp_data (login_stats now r st) =
      Login_stats (stats_bucket ''SUCCESS'' (recentAttempts now r ?xs))
        (stats_bucket ''FAILURE'' (recentAttempts now r ?xs))" for r
    by (simp add: login_stats_def Let_def)
  have "\<exists>s1 f1 s24 f24.
      resp_data (login_stats now (Some ''1h'') st) = Login_stats s1 f1 \<and>
      resp_data (login_stats now (Some ''24h'') st) = Login_stats s24 f24 \<and>
      count s1 \<le> count s24 \<and> unique_ips s1 \<le> unique_ips s24 \<and>
      unique_users s1 \<le> unique_users s24 \<and>
      count f1 \<le> count f24 \<and> unique_ips f1 \<le> unique_ips f24 \<and>
      unique_users f1 \<le> unique_users f24"
    unfolding d using b [of "''SUCCESS''"] b [of "''FAILURE''"] by blast
  moreover have "recentAttempts now (Some ''1h'') ?xs =
     filter (\<lambda>a. att_timestamp a > now - 60 * 60 * 1000) (recentAttempts now (Some ''24h'') ?xs)"
    using recent_1h_from_24h [of now ?xs] by simp
  ultimately show ?thesis
    using recent_1h_subset [of now ?xs] by blast
qed

text \<open>C7 at a ledger with one attempt in the last hour and one 22 hours old.\<close>

theorem stats_1h_within_24h_witness:
  "set (recentAttempts 90000000 (Some ''1h'') (readJSON (login_attempts_file
     (example_storage [example_attempt 1 10000000 ''10.0.0.1'' ''SUCCESS'',
        example_attempt 2 89000000 ''10.0.0.2'' ''SUCCESS'']))))
   \<subseteq> set (recentAttempts 90000000 (Some ''24h'') (readJSON (login_attempts_file
     (example_storage [example_attempt 1 10000000 ''10.0.0.1'' ''SUCCESS'',
        example_attempt 2 89000000 ''10.0.0.2'' ''SUCCESS''])))) \<and>
   resp_data (login_stats 90000000 (Some ''1h'')
     (example_storage [example_attempt 1 10000000 ''10.0.0.1'' ''SUCCESS'',
        example_attempt 2 89000000 ''10.0.0.2'' ''SUCCESS'']))
   = Login_stats \<lparr>count = 1, unique_ips = 1, unique_users = 1\<rparr>
       \<lparr>count = 0, unique_ips = 0, unique_users = 0\<rparr> \<and>
   resp_data (login_stats 90000000 (Some ''24h'')
     (example_storage [example_attempt 1 10000000 ''10.0.0.1'' ''SUCCESS'',
        example_attempt 2 89000000 ''10.0.0.2'' ''SUCCESS'']))
   = Login_stats \<lparr>count = 2, unique_ips = 2, unique_users = 1\<rparr>
       \<lparr>count = 0, unique_ips = 0, unique_users = 0\<rparr>"
proof -
  let ?st = "example_storage [example_attempt 1 10000000 ''10.0.0.1'' ''SUCCESS'',
        example_attempt 2 89000000 ''10.0.0.2'' ''SUCCESS'']"
  have "resp_data (login_stats 90000000 (Some ''1h'') ?st)
     = Login_stats \<lparr>count = 1, unique_ips = 1, unique_users = 1\<rparr>
       \<lparr>count = 0, unique_ips = 0, unique_users = 0\<rparr>"
    by code_simp
  moreover have "resp_data (login_stats 90000000 (Some ''24h'') ?st)
     = Login_stats \<lparr>count = 2, unique_ips = 2, unique_users = 1\<rparr>
       \<lparr>count = 0, unique_ips = 0, unique_users = 0\<rparr>"
    by code_simp
  ultimately show ?thesis
    using stats_1h_within_24h [of 90000000 ?st] by blast
qed

end
